theory Spec2Isabelle
  imports Main
begin

section \<open>Loadable stores: values, promises, stores\<close>

text \<open>
  The development embeds \<^verbatim>\<open>src/index.ts\<close>: stores that extend Svelte's observable
  cells with \<^verbatim>\<open>load\<close> and \<^verbatim>\<open>reload\<close>.

  The program is asynchronous. The world \<open>'w\<close> holds the parent stores and whatever
  the caller's functions reach. A call of an asynchronous method has two parts, as in
  JavaScript: its synchronous part runs at the call, changes the world and returns a
  promise; the promise is settled later, in the world of that moment, and settling it
  runs the rest of the method. An \<^verbatim>\<open>await\<close> settles the awaited promise. What is
  covered is one explicit API call after the other, each awaited. The promises that
  one \<^verbatim>\<open>Promise.all\<close> waits for are settled one after the other in the order of
  the list; their steps are not interleaved.

  Not part of the model are the derivation passes that nobody awaits: the pass that
  the start notifier of a cell starts when the cell gets its first subscriber (also
  when \<^verbatim>\<open>get\<close> subscribes to an \<^verbatim>\<open>asyncWritable\<close> store for a moment) and the
  passes that the change notifications of the parents start. \<^verbatim>\<open>get(store)\<close> is the
  read of the current value of the store.
\<close>

datatype val =
    Undefined
  | Null
  | Bool bool
  | Num int
  | Str string
  | Arr "val list"
  | Error string

text \<open>A promise that has settled: fulfilled with a value or rejected with a reason.\<close>

datatype outcome = Resolved val | Rejected val

text \<open>
  What a call of the caller's mapping function does: it throws synchronously, or it
  returns a value or a promise (\<^verbatim>\<open>Promise<T> | T\<close>); \<^verbatim>\<open>Promise.resolve\<close> makes the
  returned value and the returned promise the same thing.
\<close>

datatype returned = Throws val | Returns outcome

text \<open>
  Observation only: the calls of the caller's two mapping functions with the
  arguments they received. No branch of the model reads the trace.
\<close>

datatype event = MappingLoad val | MappingWrite val val

text \<open>
  A pending promise: what settling it gives and does, in the world in which it is
  settled.
\<close>

type_synonym 'w promise = "'w \<Rightarrow> outcome \<times> 'w"

text \<open>
  A call of an asynchronous method: the synchronous part of the method runs, and the
  call returns the promise.
\<close>

type_synonym 'w invocation = "'w \<Rightarrow> 'w promise \<times> 'w"

text \<open>A call that is awaited at once: the call and the settlement of its promise.\<close>

type_synonym 'w async = "'w \<Rightarrow> outcome \<times> 'w"

definition awaited :: "'w invocation \<Rightarrow> 'w async" where
  "awaited f w = (case f w of (p, w1) \<Rightarrow> p w1)"

text \<open>A promise that is fulfilled with a value already, and one that is rejected.\<close>

definition fulfilled :: "val \<Rightarrow> 'w promise" where
  "fulfilled v w = (Resolved v, w)"

definition rejected :: "val \<Rightarrow> 'w promise" where
  "rejected e w = (Rejected e, w)"

text \<open>
  \<^verbatim>\<open>interface Loadable<T> extends Readable<T> { load?(): Promise<T>; reload?(): Promise<T> }\<close>.
  The fields \<open>load\<close> and \<open>reload\<close> are the object's own properties of these names
  (\<open>None\<close>: the object has no such own property). \<open>subscribe\<close> stands for the
  base primitive: it is the value that the store hands to a new subscriber.
\<close>

record 'w Loadable =
  subscribe :: "'w \<Rightarrow> val"
  load :: "'w invocation option"
  reload :: "'w invocation option"

text \<open>
  \<^verbatim>\<open>interface WritableLoadable<T> extends Loadable<T>\<close>. \<^verbatim>\<open>set\<close> and \<^verbatim>\<open>update\<close> are
  called by the user of a cell only, never on a parent; they are given as awaited
  calls. \<open>Inl\<close> is what an updater throws.
\<close>

record 'w WritableLoadable = "'w Loadable" +
  set_fn :: "val \<Rightarrow> 'w async"
  update_fn :: "(val \<Rightarrow> val + val) \<Rightarrow> 'w async"

text \<open>\<^verbatim>\<open>type Stores = Readable<unknown> | Array<Readable<unknown>>\<close>\<close>

datatype 'w Stores = Single "'w Loadable" | Array "'w Loadable list"

text \<open>
  \<^verbatim>\<open>get(store)\<close> gives the value that the store holds at the call. Svelte's \<^verbatim>\<open>get\<close>
  reads it by subscribing for a moment. On an \<^verbatim>\<open>asyncWritable\<close> store without
  subscribers the subscription runs the store's start notifier, which starts a load
  pass on that store that nobody awaits; that pass works on the state of the store
  read, after the value is handed over, and is one of the passes left out above.
\<close>

definition get :: "'w Loadable \<Rightarrow> 'w \<Rightarrow> val" where
  "get store w = subscribe store w"

subsection \<open>Objects as the capability probes see them\<close>

text \<open>
  The probes take \<^verbatim>\<open>unknown\<close>. Of a JavaScript value they see whether it is
  \<^verbatim>\<open>undefined\<close> or \<^verbatim>\<open>null\<close>, and otherwise the names of its own properties; its
  prototype (the second argument of \<open>JS_object\<close>) is there to say what they do not
  see. A primitive is boxed by \<^verbatim>\<open>hasOwnProperty\<close> and is an object here.
\<close>

datatype unknown = JS_undefined | JS_null | JS_object "string list" unknown

definition TypeError :: val where
  "TypeError = Error ''TypeError''"

text \<open>\<^verbatim>\<open>Object.prototype.hasOwnProperty.call(object, name)\<close>\<close>

fun hasOwnProperty_call :: "unknown \<Rightarrow> string \<Rightarrow> val + bool" where
  "hasOwnProperty_call JS_undefined name = Inl TypeError"
| "hasOwnProperty_call JS_null name = Inl TypeError"
| "hasOwnProperty_call (JS_object own proto) name = Inr (name \<in> set own)"

text \<open>\<^verbatim>\<open>name in object\<close>: the property is found on the object or along its prototype chain.\<close>

fun has_property :: "unknown \<Rightarrow> string \<Rightarrow> bool" where
  "has_property JS_undefined name = False"
| "has_property JS_null name = False"
| "has_property (JS_object own proto) name = (name \<in> set own \<or> has_property proto name)"

text \<open>A store record as a JavaScript object: its own property names.\<close>

definition as_object :: "'w Loadable \<Rightarrow> unknown" where
  "as_object store =
     JS_object
       ([''subscribe'']
        @ (case load store of None \<Rightarrow> [] | Some l \<Rightarrow> [''load''])
        @ (case reload store of None \<Rightarrow> [] | Some r \<Rightarrow> [''reload'']))
       JS_null"

section \<open>Internal functions\<close>

definition getStoresArray :: "'w Stores \<Rightarrow> 'w Loadable list" where
  "getStoresArray stores = (case stores of Array ss \<Rightarrow> ss | Single s \<Rightarrow> [s])"

definition isLoadable :: "unknown \<Rightarrow> val + bool" where
  "isLoadable object = hasOwnProperty_call object ''load''"

definition isReloadable :: "unknown \<Rightarrow> val + bool" where
  "isReloadable object = hasOwnProperty_call object ''reload''"

text \<open>\<^verbatim>\<open>getStoresArray(stores).some(isLoadable)\<close>; the elements are objects, the probe returns.\<close>

definition anyLoadable :: "'w Stores \<Rightarrow> bool" where
  "anyLoadable stores =
     list_ex (\<lambda>store. isLoadable (as_object store) = Inr True) (getStoresArray stores)"

definition anyReloadable :: "'w Stores \<Rightarrow> bool" where
  "anyReloadable stores =
     list_ex (\<lambda>store. isReloadable (as_object store) = Inr True) (getStoresArray stores)"

subsection \<open>Promise.all\<close>

text \<open>
  \<^verbatim>\<open>Array.prototype.map\<close> with a callback that calls a method: the calls are made in
  the order of the array, each in the world that the calls before it have left.
\<close>

fun call_all :: "'w invocation list \<Rightarrow> 'w \<Rightarrow> 'w promise list \<times> 'w" where
  "call_all [] w = ([], w)"
| "call_all (f # fs) w =
     (case f w of (p, w1) \<Rightarrow>
        (case call_all fs w1 of (ps, w2) \<Rightarrow> (p # ps, w2)))"

text \<open>
  \<^verbatim>\<open>Promise.all\<close> over promises that are all pending: every one is settled (none is
  cancelled), here in the order of the list; the result is the first rejection (in
  the model the first of the list, which is the first in time), or the array of the
  values in the order of the list.
\<close>

fun settle_all :: "'w promise list \<Rightarrow> 'w \<Rightarrow> outcome list \<times> 'w" where
  "settle_all [] w = ([], w)"
| "settle_all (p # ps) w =
     (case p w of (r, w1) \<Rightarrow>
        (case settle_all ps w1 of (rs, w2) \<Rightarrow> (r # rs, w2)))"

fun aggregate :: "outcome list \<Rightarrow> val list \<Rightarrow> outcome" where
  "aggregate [] acc = Resolved (Arr (rev acc))"
| "aggregate (Rejected e # rs) acc = Rejected e"
| "aggregate (Resolved v # rs) acc = aggregate rs (v # acc)"

definition Promise_all :: "'w promise list \<Rightarrow> 'w promise" where
  "Promise_all ps w = (case settle_all ps w of (rs, w') \<Rightarrow> (aggregate rs [], w'))"

subsection \<open>loadAll and reloadAll\<close>

text \<open>
  \<^verbatim>\<open>loadAll(stores)\<close> as it is called: \<^verbatim>\<open>map\<close> runs its callback for every store
  in order, so the synchronous part of every \<^verbatim>\<open>load()\<close> and every snapshot
  \<^verbatim>\<open>get(store)\<close> happen at the call, each after the synchronous parts of the calls
  for the stores before it; the promise returned is \<^verbatim>\<open>Promise.all\<close> of the results.
\<close>

definition loadAll_called :: "'w Stores \<Rightarrow> 'w invocation" where
  "loadAll_called stores w =
     (case call_all
             (map (\<lambda>store.
                     (case load store of
                        Some l \<Rightarrow> l
                      | None \<Rightarrow> (\<lambda>w'. (fulfilled (get store w'), w'))))
                  (getStoresArray stores)) w of
        (loadPromises, w1) \<Rightarrow> (Promise_all loadPromises, w1))"

definition reloadAll_called :: "'w Stores \<Rightarrow> 'w invocation" where
  "reloadAll_called stores w =
     (case call_all
             (map (\<lambda>store.
                     (case reload store of
                        Some r \<Rightarrow> r
                      | None \<Rightarrow>
                          (case load store of
                             Some l \<Rightarrow> l
                           | None \<Rightarrow> (\<lambda>w'. (fulfilled (get store w'), w')))))
                  (getStoresArray stores)) w of
        (reloadPromises, w1) \<Rightarrow> (Promise_all reloadPromises, w1))"

text \<open>\<^verbatim>\<open>await loadAll(stores)\<close> and \<^verbatim>\<open>await reloadAll(stores)\<close>.\<close>

definition loadAll :: "'w Stores \<Rightarrow> 'w async" where
  "loadAll stores = awaited (loadAll_called stores)"

definition reloadAll :: "'w Stores \<Rightarrow> 'w async" where
  "reloadAll stores = awaited (reloadAll_called stores)"

section \<open>asyncWritable\<close>

text \<open>The arguments of \<^verbatim>\<open>asyncWritable\<close>. \<open>reloadable\<close> is \<open>None\<close> when it is not passed.\<close>

record 'w arguments =
  stores :: "'w Stores"
  mappingLoadFunction :: "val \<Rightarrow> 'w \<Rightarrow> returned \<times> 'w"
  mappingWriteFunction :: "(val \<Rightarrow> val \<Rightarrow> 'w async) option"
  reloadable :: "bool option"
  initial :: val

text \<open>
  The variables that the closure of one \<^verbatim>\<open>asyncWritable\<close> call holds: the value of
  \<^verbatim>\<open>thisStore\<close>, \<^verbatim>\<open>loadedValuesString\<close> and \<^verbatim>\<open>currentLoadPromise\<close> (\<open>None\<close>:
  still \<^verbatim>\<open>undefined\<close>), and the trace of the mapping calls.
\<close>

record cell =
  thisStore :: val
  loadedValuesString :: "string option"
  currentLoadPromise :: "outcome option"
  trace :: "event list"

definition new_cell :: "val \<Rightarrow> cell" where
  "new_cell init =
     \<lparr>thisStore = init, loadedValuesString = None, currentLoadPromise = None, trace = []\<rparr>"

text \<open>Awaiting what a variable holds: \<^verbatim>\<open>await undefined\<close> is \<^verbatim>\<open>undefined\<close>.\<close>

definition await :: "outcome option \<Rightarrow> outcome" where
  "await p = (case p of None \<Rightarrow> Resolved Undefined | Some r \<Rightarrow> r)"

text \<open>\<^verbatim>\<open>p.then(() => v)\<close> and \<^verbatim>\<open>p.catch(() => v)\<close> on a promise \<open>p\<close>.\<close>

definition promise_then :: "outcome \<Rightarrow> val \<Rightarrow> outcome" where
  "promise_then p v = (case p of Resolved x \<Rightarrow> Resolved v | Rejected e \<Rightarrow> Rejected e)"

definition promise_catch :: "outcome \<Rightarrow> val \<Rightarrow> outcome" where
  "promise_catch p v = (case p of Resolved x \<Rightarrow> Resolved x | Rejected e \<Rightarrow> Resolved v)"

text \<open>
  \<^verbatim>\<open>await loadDependenciesThenSet(parentLoadFunction, forceReload = false)\<close>: the call
  and the settlement of its promise; \<open>parentLoadFunction\<close> is the awaited call of
  the function passed (the body awaits its promise right after the call). The
  serializer \<^verbatim>\<open>JSON.stringify\<close> is the platform's; it is the parameter \<open>stringify\<close>,
  and what is proved holds for every serializer. A synchronous throw of the mapping
  function leaves the body before \<^verbatim>\<open>currentLoadPromise\<close> is assigned.
\<close>

definition loadDependenciesThenSet ::
  "(val list \<Rightarrow> string) \<Rightarrow> 'w arguments \<Rightarrow> ('w Stores \<Rightarrow> 'w async) \<Rightarrow> bool option
     \<Rightarrow> (cell \<times> 'w) async" where
  "loadDependenciesThenSet stringify A parentLoadFunction forceReload_arg = (\<lambda>(c, w).
     (let forceReload = (case forceReload_arg of None \<Rightarrow> False | Some b \<Rightarrow> b) in
      case parentLoadFunction (stores A) w of
        (Rejected e, w1) \<Rightarrow> (Rejected e, c\<lparr>currentLoadPromise := Some (Rejected e)\<rparr>, w1)
      | (Resolved x, w1) \<Rightarrow>
          (let storeValues = map (\<lambda>store. get store w1) (getStoresArray (stores A)) in
           if \<not> forceReload \<and> Some (stringify storeValues) = loadedValuesString c
           then (await (currentLoadPromise c), c, w1)
           else
             (let c1 = (if \<not> forceReload
                        then c\<lparr>loadedValuesString := Some (stringify storeValues)\<rparr>
                        else c);
                  arg = (case stores A of
                           Array ss \<Rightarrow> Arr storeValues
                         | Single s \<Rightarrow> (case storeValues of [] \<Rightarrow> Undefined | v # vs \<Rightarrow> v));
                  c2 = c1\<lparr>trace := trace c1 @ [MappingLoad arg]\<rparr>
              in case mappingLoadFunction A arg w1 of
                   (Throws e, w2) \<Rightarrow> (Rejected e, c2, w2)
                 | (Returns (Rejected e), w2) \<Rightarrow>
                     (Rejected e, c2\<lparr>currentLoadPromise := Some (Rejected e)\<rparr>, w2)
                 | (Returns (Resolved finalValue), w2) \<Rightarrow>
                     (Resolved finalValue,
                      c2\<lparr>thisStore := finalValue,
                         currentLoadPromise := Some (Resolved finalValue)\<rparr>, w2)))))"

text \<open>
  \<^verbatim>\<open>loadDependenciesThenSet(parentLoadFunction, forceReload)\<close> as it is called and
  not awaited at once (a parent's \<^verbatim>\<open>load()\<close> inside \<^verbatim>\<open>loadAll\<close>): the body runs up to
  its first \<^verbatim>\<open>await\<close>, which is the call \<^verbatim>\<open>parentLoadFunction(stores)\<close>; the rest of
  the body, from the settlement of \<^verbatim>\<open>loadParentStores\<close> on, runs when the promise
  is settled.
\<close>

definition loadDependenciesThenSet_called ::
  "(val list \<Rightarrow> string) \<Rightarrow> 'w arguments \<Rightarrow> ('w Stores \<Rightarrow> 'w invocation) \<Rightarrow> bool option
     \<Rightarrow> (cell \<times> 'w) invocation" where
  "loadDependenciesThenSet_called stringify A parentLoadFunction forceReload_arg = (\<lambda>(c, w).
     case parentLoadFunction (stores A) w of
       (loadParentStores, w0) \<Rightarrow>
         (loadDependenciesThenSet stringify A (\<lambda>stores. loadParentStores) forceReload_arg,
          (c, w0)))"

text \<open>The end of \<^verbatim>\<open>setStoreValueThenWrite\<close>: \<^verbatim>\<open>if (reloadable) { await ... }\<close>.\<close>

definition reloadAfterWrite ::
  "(val list \<Rightarrow> string) \<Rightarrow> 'w arguments \<Rightarrow> (cell \<times> 'w) async" where
  "reloadAfterWrite stringify A s =
     (if reloadable A = Some True
      then (case loadDependenciesThenSet stringify A reloadAll (reloadable A) s of
              (Rejected e, s') \<Rightarrow> (Rejected e, s')
            | (Resolved x, s') \<Rightarrow> (Resolved Undefined, s'))
      else (Resolved Undefined, s))"

text \<open>The middle of \<^verbatim>\<open>setStoreValueThenWrite\<close>: \<^verbatim>\<open>if (mappingWriteFunction) { ... }\<close>.\<close>

definition writeThrough ::
  "(val list \<Rightarrow> string) \<Rightarrow> 'w arguments \<Rightarrow> val \<Rightarrow> (cell \<times> 'w) async" where
  "writeThrough stringify A v = (\<lambda>(c, w).
     case mappingWriteFunction A of
       None \<Rightarrow> reloadAfterWrite stringify A (c, w)
     | Some write \<Rightarrow>
         (case loadAll (stores A) w of
            (Rejected e, w1) \<Rightarrow> (Rejected e, c, w1)
          | (Resolved parentValues, w1) \<Rightarrow>
              (let c1 = c\<lparr>trace := trace c @ [MappingWrite v parentValues]\<rparr> in
               case write v parentValues w1 of
                 (Rejected e, w2) \<Rightarrow> (Rejected e, c1, w2)
               | (Resolved writeResponse, w2) \<Rightarrow>
                   (if writeResponse \<noteq> Undefined
                    then (case currentLoadPromise c1 of
                            None \<Rightarrow> (Rejected TypeError, c1\<lparr>thisStore := writeResponse\<rparr>, w2)
                          | Some p \<Rightarrow>
                              reloadAfterWrite stringify A
                                (c1\<lparr>thisStore := writeResponse,
                                    currentLoadPromise := Some (promise_then p writeResponse)\<rparr>,
                                 w2))
                    else reloadAfterWrite stringify A (c1, w2)))))"

text \<open>
  \<^verbatim>\<open>setStoreValueThenWrite\<close>. When \<^verbatim>\<open>currentLoadPromise\<close> is still \<^verbatim>\<open>undefined\<close>,
  \<^verbatim>\<open>.then\<close> throws inside the \<^verbatim>\<open>try\<close> and \<^verbatim>\<open>.catch\<close> throws inside the handler:
  the call rejects before \<^verbatim>\<open>thisStore.set(value)\<close>.
\<close>

definition setStoreValueThenWrite ::
  "(val list \<Rightarrow> string) \<Rightarrow> 'w arguments \<Rightarrow> val \<Rightarrow> (cell \<times> 'w) async" where
  "setStoreValueThenWrite stringify A v s =
     (case loadDependenciesThenSet stringify A loadAll None s of
        (r, c1, w1) \<Rightarrow>
          (case currentLoadPromise c1 of
             None \<Rightarrow> (Rejected TypeError, c1, w1)
           | Some p \<Rightarrow>
               (let chained = (case r of
                                 Resolved x \<Rightarrow> promise_then p v
                               | Rejected e \<Rightarrow> promise_catch p v)
                in writeThrough stringify A v
                     (c1\<lparr>currentLoadPromise := Some chained, thisStore := v\<rparr>, w1))))"

definition updateStoreValueThenWrite ::
  "(val list \<Rightarrow> string) \<Rightarrow> 'w arguments \<Rightarrow> (val \<Rightarrow> val + val) \<Rightarrow> (cell \<times> 'w) async" where
  "updateStoreValueThenWrite stringify A updater s =
     (case loadDependenciesThenSet stringify A loadAll None s of
        (Rejected e, s1) \<Rightarrow> (Rejected e, s1)
      | (Resolved currentValue, s1) \<Rightarrow>
          (case updater currentValue of
             Inl e \<Rightarrow> (Rejected e, s1)
           | Inr v \<Rightarrow> setStoreValueThenWrite stringify A v s1))"

text \<open>
  The object that \<^verbatim>\<open>asyncWritable\<close> returns; the state of its closure starts as
  \<open>new_cell (initial A)\<close>. \<^verbatim>\<open>Boolean(reloadable || anyReloadable(stores))\<close>.
\<close>

definition asyncWritable ::
  "(val list \<Rightarrow> string) \<Rightarrow> 'w arguments \<Rightarrow> (cell \<times> 'w) WritableLoadable" where
  "asyncWritable stringify A =
     (let hasReloadFunction = (reloadable A = Some True \<or> anyReloadable (stores A)) in
      \<lparr>subscribe = (\<lambda>(c, w). thisStore c),
       load = Some (loadDependenciesThenSet_called stringify A loadAll_called None),
       reload = (if hasReloadFunction
                 then Some (loadDependenciesThenSet_called stringify A reloadAll_called
                              (reloadable A))
                 else None),
       set_fn = setStoreValueThenWrite stringify A,
       update_fn = updateStoreValueThenWrite stringify A\<rparr>)"

text \<open>\<^verbatim>\<open>asyncDerived\<close>: the same cell without a write function, as a \<^verbatim>\<open>Loadable\<close>.\<close>

definition asyncDerived ::
  "(val list \<Rightarrow> string) \<Rightarrow> 'w Stores \<Rightarrow> (val \<Rightarrow> 'w \<Rightarrow> returned \<times> 'w) \<Rightarrow> bool option \<Rightarrow> val
     \<Rightarrow> (cell \<times> 'w) Loadable" where
  "asyncDerived stringify ss mappingLoad reloadable_arg init =
     (let thisStore = asyncWritable stringify
            \<lparr>stores = ss, mappingLoadFunction = mappingLoad, mappingWriteFunction = None,
             reloadable = reloadable_arg, initial = init\<rparr>
      in \<lparr>subscribe = subscribe thisStore, load = load thisStore, reload = reload thisStore\<rparr>)"

text \<open>\<^verbatim>\<open>asyncReadable(initial, loadFunction, reloadable = false)\<close>\<close>

definition asyncReadable ::
  "(val list \<Rightarrow> string) \<Rightarrow> val \<Rightarrow> ('w \<Rightarrow> returned \<times> 'w) \<Rightarrow> bool option
     \<Rightarrow> (cell \<times> 'w) Loadable" where
  "asyncReadable stringify init loadFunction reloadable_arg =
     asyncDerived stringify (Array []) (\<lambda>vs. loadFunction)
       (case reloadable_arg of None \<Rightarrow> Some False | Some b \<Rightarrow> Some b) init"

section \<open>JSON.stringify on the values of the model\<close>

text \<open>
  The platform's serializer on arrays of the values above, for the concrete runs:
  inside an array \<^verbatim>\<open>undefined\<close> is written \<^verbatim>\<open>null\<close>, an integer in decimal, a string
  in quotes with its escapes, an error object as \<^verbatim>\<open>{}\<close>. JavaScript numbers are
  doubles: the decimal form is what \<^verbatim>\<open>JSON.stringify\<close> prints for the integers
  that a double holds exactly and that are below \<open>10\<^sup>2\<^sup>1\<close> in size; the runs
  use small integers only, and no general theorem uses this serializer.
\<close>

fun show_nat :: "nat \<Rightarrow> string" where
  "show_nat n =
     (if n < 10 then [''0123456789'' ! n]
      else show_nat (n div 10) @ [''0123456789'' ! (n mod 10)])"

definition show_int :: "int \<Rightarrow> string" where
  "show_int i = (if i < 0 then CHR ''-'' # show_nat (nat (- i)) else show_nat (nat i))"

definition escape_char :: "char \<Rightarrow> string" where
  "escape_char c =
     (let n = (of_char c :: nat) in
      if c = CHR 0x22 then [CHR 0x5C, CHR 0x22]
      else if c = CHR 0x5C then [CHR 0x5C, CHR 0x5C]
      else if n = 8 then [CHR 0x5C, CHR ''b'']
      else if n = 9 then [CHR 0x5C, CHR ''t'']
      else if n = 10 then [CHR 0x5C, CHR ''n'']
      else if n = 12 then [CHR 0x5C, CHR ''f'']
      else if n = 13 then [CHR 0x5C, CHR ''r'']
      else if n < 32
        then [CHR 0x5C, CHR ''u'', CHR ''0'', CHR ''0'',
              ''0123456789abcdef'' ! (n div 16), ''0123456789abcdef'' ! (n mod 16)]
      else [c])"

fun commas :: "string list \<Rightarrow> string" where
  "commas [] = []"
| "commas [x] = x"
| "commas (x # y # ys) = x @ '','' @ commas (y # ys)"

fun stringify_element :: "val \<Rightarrow> string" where
  "stringify_element Undefined = ''null''"
| "stringify_element Null = ''null''"
| "stringify_element (Bool b) = (if b then ''true'' else ''false'')"
| "stringify_element (Num i) = show_int i"
| "stringify_element (Str s) = [CHR 0x22] @ concat (map escape_char s) @ [CHR 0x22]"
| "stringify_element (Arr vs) = ''['' @ commas (map stringify_element vs) @ '']''"
| "stringify_element (Error m) = ''{}''"

definition JSON_stringify :: "val list \<Rightarrow> string" where
  "JSON_stringify storeValues = stringify_element (Arr storeValues)"

section \<open>Calling the methods of a store\<close>

text \<open>
  \<^verbatim>\<open>await store.load()\<close> and \<^verbatim>\<open>await store.reload()\<close> as a caller writes them: the
  call of a method that the object does not have throws.
\<close>

definition invoke :: "'w invocation option \<Rightarrow> 'w async" where
  "invoke method w =
     (case method of Some f \<Rightarrow> awaited f w | None \<Rightarrow> (Rejected TypeError, w))"

text \<open>The snapshots of the parents in a world, in the order of the dependencies.\<close>

abbreviation snapshots :: "'w arguments \<Rightarrow> 'w \<Rightarrow> val list" where
  "snapshots A w \<equiv> map (\<lambda>store. get store w) (getStoresArray (stores A))"

text \<open>What the mapping-load function receives when a pass calls it in the world \<open>w\<close>.\<close>

definition mappingArgument :: "'w arguments \<Rightarrow> 'w \<Rightarrow> val" where
  "mappingArgument A w =
     (case stores A of
        Array ss \<Rightarrow> Arr (map (\<lambda>store. get store w) ss)
      | Single s \<Rightarrow> get s w)"

section \<open>Example systems\<close>

text \<open>A hand-written loadable whose \<^verbatim>\<open>load\<close> and \<^verbatim>\<open>reload\<close> reject, and a cell derived from it.\<close>

definition rejecting_parent :: "unit Loadable" where
  "rejecting_parent =
     \<lparr>subscribe = (\<lambda>w. Undefined),
      load = Some (\<lambda>w. (rejected (Str ''down''), w)),
      reload = Some (\<lambda>w. (rejected (Str ''down''), w))\<rparr>"

definition child_of_rejecting :: "unit arguments" where
  "child_of_rejecting =
     \<lparr>stores = Single rejecting_parent,
      mappingLoadFunction = (\<lambda>v w. (Returns (Resolved v), w)),
      mappingWriteFunction = None, reloadable = None, initial = Num 0\<rparr>"

text \<open>Two plain stores over a world that holds their two values, and a cell that echoes its argument.\<close>

definition first_store :: "(val \<times> val) Loadable" where
  "first_store = \<lparr>subscribe = fst, load = None, reload = None\<rparr>"

definition second_store :: "(val \<times> val) Loadable" where
  "second_store = \<lparr>subscribe = snd, load = None, reload = None\<rparr>"

definition echo_cell :: "(val \<times> val) Stores \<Rightarrow> (val \<times> val) arguments" where
  "echo_cell ss =
     \<lparr>stores = ss, mappingLoadFunction = (\<lambda>v w. (Returns (Resolved v), w)),
      mappingWriteFunction = None, reloadable = None, initial = Undefined\<rparr>"

text \<open>
  A reloadable source without parents,
  \<^verbatim>\<open>asyncReadable(undefined, async () => 1, true)\<close>, and a cell derived from it that is
  not flagged reloadable, \<^verbatim>\<open>asyncWritable(source, async (v) => v + 1)\<close>. The world of
  the derived cell holds the state of the source.
\<close>

definition constant_source :: "(cell \<times> unit) Loadable" where
  "constant_source =
     asyncReadable JSON_stringify Undefined (\<lambda>w. (Returns (Resolved (Num 1)), w)) (Some True)"

definition successor_cell :: "(cell \<times> unit) arguments" where
  "successor_cell =
     \<lparr>stores = Single constant_source,
      mappingLoadFunction =
        (\<lambda>v w. (Returns (Resolved (case v of Num n \<Rightarrow> Num (n + 1) | _ \<Rightarrow> Undefined)), w)),
      mappingWriteFunction = None, reloadable = None, initial = Undefined\<rparr>"

text \<open>A reloadable cell without parents that counts its loads in the world.\<close>

definition counting_cell :: "int arguments" where
  "counting_cell =
     \<lparr>stores = Array [],
      mappingLoadFunction = (\<lambda>v w. (Returns (Resolved (Num (w + 1))), w + 1)),
      mappingWriteFunction = None, reloadable = Some True, initial = Undefined\<rparr>"






section \<open>reloadAll as the specification words it\<close>








text \<open>
  The specification's example \<^verbatim>\<open>asyncWritable([], async () => 0, async (v) => v * 2)\<close>.
\<close>

definition doubling_cell :: "unit arguments" where
  "doubling_cell =
     \<lparr>stores = Array [],
      mappingLoadFunction = (\<lambda>v w. (Returns (Resolved (Num 0)), w)),
      mappingWriteFunction =
        Some (\<lambda>v parentValues w.
                (Resolved (case v of Num n \<Rightarrow> Num (n * 2) | _ \<Rightarrow> Undefined), w)),
      reloadable = None, initial = Undefined\<rparr>"





text \<open>
  A plain store whose value is the world, and a cell over it whose mapping-load
  function is synchronous and throws on the value 2:
  \<^verbatim>\<open>asyncWritable(p, (v) => { if (v === 2) throw 'boom'; return v; })\<close>.
\<close>

definition plain_value :: "val Loadable" where
  "plain_value = \<lparr>subscribe = (\<lambda>w. w), load = None, reload = None\<rparr>"

definition picky_cell :: "val arguments" where
  "picky_cell =
     \<lparr>stores = Single plain_value,
      mappingLoadFunction =
        (\<lambda>v w. if v = Num 2 then (Throws (Str ''boom''), w) else (Returns (Resolved v), w)),
      mappingWriteFunction = None, reloadable = None, initial = Undefined\<rparr>"

text \<open>
  The same with an asynchronous function, which returns a promise that rejects:
  \<^verbatim>\<open>asyncWritable(p, async (v) => { if (v === 2) throw 'boom'; return v; })\<close>.
\<close>

definition picky_async_cell :: "val arguments" where
  "picky_async_cell =
     \<lparr>stores = Single plain_value,
      mappingLoadFunction =
        (\<lambda>v w. if v = Num 2 then (Returns (Rejected (Str ''boom'')), w)
               else (Returns (Resolved v), w)),
      mappingWriteFunction = None, reloadable = None, initial = Undefined\<rparr>"

section \<open>The capability probes\<close>

lemma isLoadable_as_object: "isLoadable (as_object store) = Inr (load store \<noteq> None)"
  by (cases "load store") (simp_all add: isLoadable_def as_object_def split: option.splits)


lemma anyLoadable_iff:
  "anyLoadable ss = (\<exists>store \<in> set (getStoresArray ss). load store \<noteq> None)"
  by (simp add: anyLoadable_def isLoadable_as_object list_ex_iff)


text \<open>
  Claim C10. \<^verbatim>\<open>isLoadable\<close> and \<^verbatim>\<open>isReloadable\<close> answer whether \<^verbatim>\<open>load\<close>
  (\<^verbatim>\<open>reload\<close>) is an own property of the argument, whatever its prototype chain holds:
  an object that has the property only through its prototype is reported as not
  loadable (not reloadable). On \<^verbatim>\<open>null\<close> and on \<^verbatim>\<open>undefined\<close> the probes throw; these
  are the only arguments on which they do not return.
\<close>

theorem probes_see_own_properties_only:
  "isLoadable (JS_object own proto) = Inr (''load'' \<in> set own) \<and>
   isReloadable (JS_object own proto) = Inr (''reload'' \<in> set own) \<and>
   (''load'' \<notin> set own \<and> has_property proto ''load'' \<longrightarrow>
      has_property (JS_object own proto) ''load'' \<and>
      isLoadable (JS_object own proto) = Inr False) \<and>
   (''reload'' \<notin> set own \<and> has_property proto ''reload'' \<longrightarrow>
      has_property (JS_object own proto) ''reload'' \<and>
      isReloadable (JS_object own proto) = Inr False) \<and>
   isLoadable JS_null = Inl TypeError \<and> isLoadable JS_undefined = Inl TypeError \<and>
   isReloadable JS_null = Inl TypeError \<and> isReloadable JS_undefined = Inl TypeError \<and>
   ((\<exists>b. isLoadable x = Inr b) = (x \<noteq> JS_null \<and> x \<noteq> JS_undefined)) \<and>
   ((\<exists>b. isReloadable x = Inr b) = (x \<noteq> JS_null \<and> x \<noteq> JS_undefined))"
  by (cases x) (simp_all add: isLoadable_def isReloadable_def)

theorem probes_see_own_properties_only_witness:
  "''load'' \<notin> set [''subscribe''] \<and>
   has_property (JS_object [''load'', ''reload''] JS_null) ''load'' \<and>
   has_property (JS_object [''subscribe''] (JS_object [''load'', ''reload''] JS_null)) ''load'' \<and>
   isLoadable (JS_object [''subscribe''] (JS_object [''load'', ''reload''] JS_null)) = Inr False \<and>
   ''reload'' \<notin> set [''subscribe''] \<and>
   has_property (JS_object [''load'', ''reload''] JS_null) ''reload'' \<and>
   isReloadable (JS_object [''subscribe''] (JS_object [''load'', ''reload''] JS_null)) = Inr False \<and>
   isLoadable (JS_object [''subscribe'', ''load''] JS_null) = Inr True \<and>
   isLoadable JS_null = Inl TypeError"
  using probes_see_own_properties_only
    [of "[''subscribe'']" "JS_object [''load'', ''reload''] JS_null" JS_null]
    probes_see_own_properties_only [of "[''subscribe'', ''load'']" JS_null JS_null]
  by simp

section \<open>The object that asyncWritable returns\<close>

text \<open>
  Calling \<^verbatim>\<open>load()\<close> or \<^verbatim>\<open>reload()\<close> of a cell and awaiting the promise is the
  awaited derivation pass.
\<close>

lemma awaited_pass:
  "awaited (loadDependenciesThenSet_called S A f fr) (c, w) =
   loadDependenciesThenSet S A (\<lambda>deps. awaited (f deps)) fr (c, w)"
  by (simp add: awaited_def loadDependenciesThenSet_called_def loadDependenciesThenSet_def
      split: prod.splits)

lemma loadAll_awaited: "(\<lambda>deps. awaited (loadAll_called deps)) = loadAll"
  by (rule ext) (simp add: loadAll_def)

lemma reloadAll_awaited: "(\<lambda>deps. awaited (reloadAll_called deps)) = reloadAll"
  by (rule ext) (simp add: reloadAll_def)

lemma invoke_load:
  "invoke (load (asyncWritable S A)) (c, w) = loadDependenciesThenSet S A loadAll None (c, w)"
  by (simp add: asyncWritable_def Let_def invoke_def awaited_pass loadAll_awaited)

lemma invoke_reload:
  "reload (asyncWritable S A) \<noteq> None \<Longrightarrow>
   invoke (reload (asyncWritable S A)) (c, w) =
     loadDependenciesThenSet S A reloadAll (reloadable A) (c, w)"
  by (auto simp add: asyncWritable_def Let_def invoke_def awaited_pass reloadAll_awaited
      split: if_splits)

lemma set_fn_asyncWritable: "set_fn (asyncWritable S A) = setStoreValueThenWrite S A"
  by (simp add: asyncWritable_def Let_def)




section \<open>The derivation pass\<close>

lemma pass_parents_rejected:
  "pl (stores A) w = (Rejected e, w1) \<Longrightarrow>
   loadDependenciesThenSet S A pl fr (c, w) =
     (Rejected e, c\<lparr>currentLoadPromise := Some (Rejected e)\<rparr>, w1)"
  by (simp add: loadDependenciesThenSet_def)

lemma pass_memo_hit:
  "pl (stores A) w = (Resolved x, w1) \<Longrightarrow> fr \<noteq> Some True \<Longrightarrow>
   loadedValuesString c = Some (S (snapshots A w1)) \<Longrightarrow>
   loadDependenciesThenSet S A pl fr (c, w) = (await (currentLoadPromise c), c, w1)"
  by (cases fr) (auto simp add: loadDependenciesThenSet_def Let_def)

lemma pass_computes:
  "pl (stores A) w = (Resolved x, w1) \<Longrightarrow>
   fr = Some True \<or> loadedValuesString c \<noteq> Some (S (snapshots A w1)) \<Longrightarrow>
   loadDependenciesThenSet S A pl fr (c, w) =
     (let c1 = (if fr = Some True then c
                else c\<lparr>loadedValuesString := Some (S (snapshots A w1))\<rparr>);
          c2 = c1\<lparr>trace := trace c @ [MappingLoad (mappingArgument A w1)]\<rparr>
      in case mappingLoadFunction A (mappingArgument A w1) w1 of
           (Throws e, w2) \<Rightarrow> (Rejected e, c2, w2)
         | (Returns (Rejected e), w2) \<Rightarrow>
             (Rejected e, c2\<lparr>currentLoadPromise := Some (Rejected e)\<rparr>, w2)
         | (Returns (Resolved v), w2) \<Rightarrow>
             (Resolved v, c2\<lparr>thisStore := v, currentLoadPromise := Some (Resolved v)\<rparr>, w2))"
  by (cases fr; cases "stores A")
     (auto simp add: loadDependenciesThenSet_def Let_def mappingArgument_def getStoresArray_def
       split: prod.splits returned.splits outcome.splits)

text \<open>
  Claim C3. When the resolution of the parents rejects during \<^verbatim>\<open>load()\<close> (by
  \<^verbatim>\<open>loadAll\<close>) or \<^verbatim>\<open>reload()\<close> (by \<^verbatim>\<open>reloadAll\<close>), the call rejects with the
  parents' reason, the rejected promise is the cell's current load promise, the
  value of the cell is what it was before the call, and the mapping-load function is
  not called.
\<close>

theorem parent_failure_leaves_cell:
  assumes "(resolve = loadAll \<and> callee = load (asyncWritable S A)) \<or>
           (resolve = reloadAll \<and> callee = reload (asyncWritable S A) \<and> callee \<noteq> None)"
    and "resolve (stores A) w = (Rejected e, w1)"
    and "invoke callee (c, w) = (r, c', w')"
  shows "r = Rejected e \<and> thisStore c' = thisStore c \<and>
         currentLoadPromise c' = Some (Rejected e) \<and> trace c' = trace c \<and>
         loadedValuesString c' = loadedValuesString c \<and> w' = w1"
proof -
  have "\<exists>fr. invoke callee (c, w) = loadDependenciesThenSet S A resolve fr (c, w)"
  proof (rule disjE [OF assms(1)])
    assume "resolve = loadAll \<and> callee = load (asyncWritable S A)"
    then show ?thesis
      by (auto simp add: invoke_load)
  next
    assume a: "resolve = reloadAll \<and> callee = reload (asyncWritable S A) \<and> callee \<noteq> None"
    then have "reload (asyncWritable S A) \<noteq> None"
      by auto
    from invoke_reload [OF this] a show ?thesis
      by auto
  qed
  with assms(2,3) show ?thesis
    by (auto simp add: pass_parents_rejected)
qed

theorem parent_failure_leaves_cell_witness:
  "loadAll (stores child_of_rejecting) () = (Rejected (Str ''down''), ()) \<and>
   invoke (load (asyncWritable JSON_stringify child_of_rejecting)) (new_cell (Num 0), ()) =
     (Rejected (Str ''down''),
      (new_cell (Num 0))\<lparr>currentLoadPromise := Some (Rejected (Str ''down''))\<rparr>, ()) \<and>
   thisStore ((new_cell (Num 0))\<lparr>currentLoadPromise := Some (Rejected (Str ''down''))\<rparr>) = Num 0"
proof -
  have l: "loadAll (stores child_of_rejecting) () = (Rejected (Str ''down''), ())"
    by code_simp
  have i: "invoke (load (asyncWritable JSON_stringify child_of_rejecting)) (new_cell (Num 0), ()) =
     (Rejected (Str ''down''),
      (new_cell (Num 0))\<lparr>currentLoadPromise := Some (Rejected (Str ''down''))\<rparr>, ())"
    by (simp add: invoke_load pass_parents_rejected [where pl = loadAll, OF l])
  show ?thesis
    using parent_failure_leaves_cell
      [where resolve = loadAll and S = JSON_stringify and A = child_of_rejecting
         and callee = "load (asyncWritable JSON_stringify child_of_rejecting)", OF _ l i] l i
    by (simp add: new_cell_def)
qed

text \<open>
  Claim C8. A derivation pass that reaches the call of the mapping-load function
  passes it the parents' values as an array in the order of the dependencies when
  \<^verbatim>\<open>stores\<close> was given as an array, and the bare value of the parent (not an array of
  one element) when \<^verbatim>\<open>stores\<close> was a single store. The values are the parents'
  snapshots after their resolution.
\<close>

theorem mapping_load_argument:
  assumes "loadDependenciesThenSet S A resolve fr (c, w) = (r, c', w')"
    and "resolve (stores A) w = (x, w1)"
    and "trace c' \<noteq> trace c"
  shows "trace c' =
           trace c @
             [MappingLoad
                (case stores A of
                   Array ss \<Rightarrow> Arr (map (\<lambda>store. get store w1) ss)
                 | Single s \<Rightarrow> get s w1)] \<and>
         w' = snd (mappingLoadFunction A
                (case stores A of
                   Array ss \<Rightarrow> Arr (map (\<lambda>store. get store w1) ss)
                 | Single s \<Rightarrow> get s w1) w1)"
proof (cases x)
  case (Rejected e)
  with assms show ?thesis
    by (auto simp add: pass_parents_rejected)
next
  case (Resolved v)
  show ?thesis
  proof (cases "fr = Some True \<or> loadedValuesString c \<noteq> Some (S (snapshots A w1))")
    case True
    from pass_computes [of resolve A w v w1 fr c S] assms(2) Resolved True
    have "loadDependenciesThenSet S A resolve fr (c, w) =
     (let c1 = (if fr = Some True then c
                else c\<lparr>loadedValuesString := Some (S (snapshots A w1))\<rparr>);
          c2 = c1\<lparr>trace := trace c @ [MappingLoad (mappingArgument A w1)]\<rparr>
      in case mappingLoadFunction A (mappingArgument A w1) w1 of
           (Throws e, w2) \<Rightarrow> (Rejected e, c2, w2)
         | (Returns (Rejected e), w2) \<Rightarrow>
             (Rejected e, c2\<lparr>currentLoadPromise := Some (Rejected e)\<rparr>, w2)
         | (Returns (Resolved v), w2) \<Rightarrow>
             (Resolved v, c2\<lparr>thisStore := v, currentLoadPromise := Some (Resolved v)\<rparr>, w2))"
      by simp
    with assms(1) show ?thesis
      by (auto simp add: Let_def mappingArgument_def split: prod.splits returned.splits outcome.splits)
  next
    case False
    with assms Resolved show ?thesis
      by (auto simp add: pass_memo_hit)
  qed
qed

theorem mapping_load_argument_witness:
  "loadDependenciesThenSet JSON_stringify (echo_cell (Array [first_store, second_store])) loadAll None
       (new_cell Undefined, (Num 1, Num 2)) =
     (Resolved (Arr [Num 1, Num 2]),
      \<lparr>thisStore = Arr [Num 1, Num 2], loadedValuesString = Some ''[1,2]'',
        currentLoadPromise = Some (Resolved (Arr [Num 1, Num 2])),
        trace = [MappingLoad (Arr [Num 1, Num 2])]\<rparr>, (Num 1, Num 2)) \<and>
   loadDependenciesThenSet JSON_stringify (echo_cell (Single first_store)) loadAll None
       (new_cell Undefined, (Num 1, Num 2)) =
     (Resolved (Num 1),
      \<lparr>thisStore = Num 1, loadedValuesString = Some ''[1]'',
        currentLoadPromise = Some (Resolved (Num 1)),
        trace = [MappingLoad (Num 1)]\<rparr>, (Num 1, Num 2))"
proof -
  let ?two = "echo_cell (Array [first_store, second_store])"
  let ?one = "echo_cell (Single first_store)"
  let ?s = "(new_cell Undefined, (Num 1, Num 2))"
  have p2: "loadAll (stores ?two) (Num 1, Num 2) = (Resolved (Arr [Num 1, Num 2]), (Num 1, Num 2))"
    by code_simp
  have p1: "loadAll (stores ?one) (Num 1, Num 2) = (Resolved (Arr [Num 1]), (Num 1, Num 2))"
    by code_simp
  have r2: "loadDependenciesThenSet JSON_stringify ?two loadAll None ?s =
     (Resolved (Arr [Num 1, Num 2]),
      \<lparr>thisStore = Arr [Num 1, Num 2], loadedValuesString = Some ''[1,2]'',
        currentLoadPromise = Some (Resolved (Arr [Num 1, Num 2])),
        trace = [MappingLoad (Arr [Num 1, Num 2])]\<rparr>, (Num 1, Num 2))"
    by code_simp
  have r1: "loadDependenciesThenSet JSON_stringify ?one loadAll None ?s =
     (Resolved (Num 1),
      \<lparr>thisStore = Num 1, loadedValuesString = Some ''[1]'',
        currentLoadPromise = Some (Resolved (Num 1)),
        trace = [MappingLoad (Num 1)]\<rparr>, (Num 1, Num 2))"
    by code_simp
  show ?thesis
    using mapping_load_argument [OF r2 p2] mapping_load_argument [OF r1 p1] r1 r2
    by (simp add: new_cell_def)
qed

lemma pass_unforced_sets_key:
  assumes "resolve (stores A) w = (Resolved x, w1)" and "fr \<noteq> Some True"
    and "loadDependenciesThenSet S A resolve fr (c, w) = (r, c', w')"
  shows "loadedValuesString c' = Some (S (snapshots A w1)) \<and>
         (trace c' = trace c \<or> trace c' = trace c @ [MappingLoad (mappingArgument A w1)])"
proof (cases "loadedValuesString c = Some (S (snapshots A w1))")
  case True
  with assms show ?thesis
    by (auto simp add: pass_memo_hit)
next
  case False
  with assms(2) pass_computes [of resolve A w x w1 fr c S, OF assms(1)] assms(3)
  show ?thesis
    by (auto simp add: Let_def split: prod.splits returned.splits outcome.splits)
qed

text \<open>
  Claim C4. Two \<^verbatim>\<open>load()\<close> calls in succession, the parents resolving both times to
  the same sequence of values: the second call finds the memoization key of the
  first, returns the current load promise and leaves the cell as it is, so the
  mapping-load function is called at most once over the two calls.
\<close>

theorem load_twice_computes_once:
  assumes "invoke (load (asyncWritable S A)) (c, w) = (r1, c1, w1)"
    and "invoke (load (asyncWritable S A)) (c1, w1) = (r2, c2, w2)"
    and "loadAll (stores A) w = (Resolved x, wa)"
    and "loadAll (stores A) w1 = (Resolved y, wb)"
    and "snapshots A wb = snapshots A wa"
  shows "c2 = c1 \<and> r2 = await (currentLoadPromise c1) \<and> w2 = wb \<and>
         (trace c2 = trace c \<or> trace c2 = trace c @ [MappingLoad (mappingArgument A wa)])"
proof -
  from assms(1) have one: "loadDependenciesThenSet S A loadAll None (c, w) = (r1, c1, w1)"
    by (simp add: invoke_load)
  from assms(2) have two: "loadDependenciesThenSet S A loadAll None (c1, w1) = (r2, c2, w2)"
    by (simp add: invoke_load)
  have key: "loadedValuesString c1 = Some (S (snapshots A wa))"
    and tr: "trace c1 = trace c \<or> trace c1 = trace c @ [MappingLoad (mappingArgument A wa)]"
    using pass_unforced_sets_key [where resolve = loadAll and A = A and S = S, OF assms(3) _ one] by simp_all
  from key have "loadedValuesString c1 = Some (S (snapshots A wb))"
    by (simp only: assms(5))
  from pass_memo_hit [where pl = loadAll and A = A and S = S and fr = None, OF assms(4) _ this] two
  have "c2 = c1 \<and> r2 = await (currentLoadPromise c1) \<and> w2 = wb"
    by simp
  with tr show ?thesis
    by simp
qed

theorem load_twice_computes_once_witness:
  "invoke (load (asyncWritable JSON_stringify (echo_cell (Array [first_store, second_store]))))
       (new_cell Undefined, (Num 1, Num 2)) =
     (Resolved (Arr [Num 1, Num 2]),
      \<lparr>thisStore = Arr [Num 1, Num 2], loadedValuesString = Some ''[1,2]'',
        currentLoadPromise = Some (Resolved (Arr [Num 1, Num 2])),
        trace = [MappingLoad (Arr [Num 1, Num 2])]\<rparr>, (Num 1, Num 2)) \<and>
   invoke (load (asyncWritable JSON_stringify (echo_cell (Array [first_store, second_store]))))
       (\<lparr>thisStore = Arr [Num 1, Num 2], loadedValuesString = Some ''[1,2]'',
        currentLoadPromise = Some (Resolved (Arr [Num 1, Num 2])),
        trace = [MappingLoad (Arr [Num 1, Num 2])]\<rparr>, (Num 1, Num 2)) =
     (Resolved (Arr [Num 1, Num 2]),
      \<lparr>thisStore = Arr [Num 1, Num 2], loadedValuesString = Some ''[1,2]'',
        currentLoadPromise = Some (Resolved (Arr [Num 1, Num 2])),
        trace = [MappingLoad (Arr [Num 1, Num 2])]\<rparr>, (Num 1, Num 2)) \<and>
   loadAll (stores (echo_cell (Array [first_store, second_store]))) (Num 1, Num 2) =
     (Resolved (Arr [Num 1, Num 2]), (Num 1, Num 2))"
proof -
  let ?A = "echo_cell (Array [first_store, second_store])"
  let ?c1 = "\<lparr>thisStore = Arr [Num 1, Num 2], loadedValuesString = Some ''[1,2]'',
        currentLoadPromise = Some (Resolved (Arr [Num 1, Num 2])),
        trace = [MappingLoad (Arr [Num 1, Num 2])]\<rparr>"
  have p: "loadAll (stores ?A) (Num 1, Num 2) = (Resolved (Arr [Num 1, Num 2]), (Num 1, Num 2))"
    by code_simp
  have one: "invoke (load (asyncWritable JSON_stringify ?A)) (new_cell Undefined, (Num 1, Num 2)) =
     (Resolved (Arr [Num 1, Num 2]), ?c1, (Num 1, Num 2))"
    by code_simp
  have two: "invoke (load (asyncWritable JSON_stringify ?A)) (?c1, (Num 1, Num 2)) =
     (Resolved (Arr [Num 1, Num 2]), ?c1, (Num 1, Num 2))"
    by code_simp
  show ?thesis
    using load_twice_computes_once [OF one two p p] one two p
    by simp
qed

text \<open>
  Claim C1, as the code has it. \<^verbatim>\<open>reload()\<close> passes the cell's own \<^verbatim>\<open>reloadable\<close>
  flag as \<^verbatim>\<open>forceReload\<close>. On a cell whose flag was passed truthy, a \<^verbatim>\<open>reload()\<close>
  whose parents resolve calls the mapping-load function, also when the serialized
  values of the parents are the key of the previous derivation. On a cell that has
  \<^verbatim>\<open>reload\<close> only because a parent is reloadable, \<^verbatim>\<open>reload()\<close> reloads the parents
  and then applies the memoization check as \<^verbatim>\<open>load()\<close> does: with an unchanged key it
  returns the current load promise and leaves the cell as it is.
\<close>

theorem forced_reload_recomputes:
  assumes "reloadAll (stores A) w = (Resolved x, w1)"
    and "invoke (reload (asyncWritable S A)) (c, w) = (r, c', w')"
  shows "(reloadable A = Some True \<longrightarrow>
            trace c' = trace c @ [MappingLoad (mappingArgument A w1)] \<and>
            w' = snd (mappingLoadFunction A (mappingArgument A w1) w1)) \<and>
         (reloadable A \<noteq> Some True \<and> reload (asyncWritable S A) \<noteq> None \<and>
          loadedValuesString c = Some (S (snapshots A w1)) \<longrightarrow>
            r = await (currentLoadPromise c) \<and> c' = c \<and> w' = w1)"
proof (intro conjI impI)
  assume flag: "reloadable A = Some True"
  then have "reload (asyncWritable S A) \<noteq> None"
    by (simp add: asyncWritable_def)
  from invoke_reload [OF this] flag assms(2)
  have run: "loadDependenciesThenSet S A reloadAll (Some True) (c, w) = (r, c', w')"
    by simp
  from pass_computes [where pl = reloadAll and A = A and S = S and fr = "Some True" and c = c,
      OF assms(1)] run
  show "trace c' = trace c @ [MappingLoad (mappingArgument A w1)]"
    and "w' = snd (mappingLoadFunction A (mappingArgument A w1) w1)"
    by (auto simp add: Let_def split: prod.splits returned.splits outcome.splits)
next
  assume h: "reloadable A \<noteq> Some True \<and> reload (asyncWritable S A) \<noteq> None \<and>
          loadedValuesString c = Some (S (snapshots A w1))"
  then have "reload (asyncWritable S A) \<noteq> None"
    by simp
  from invoke_reload [OF this] assms(2)
  have run: "loadDependenciesThenSet S A reloadAll (reloadable A) (c, w) = (r, c', w')"
    by simp
  from h pass_memo_hit [where pl = reloadAll and A = A and S = S and fr = "reloadable A" and c = c,
      OF assms(1)] run
  show "r = await (currentLoadPromise c)" and "c' = c" and "w' = w1"
    by auto
qed

theorem forced_reload_recomputes_witness:
  "reloadable counting_cell = Some True \<and>
   reloadAll (stores counting_cell) 1 = (Resolved (Arr []), 1) \<and>
   loadedValuesString
       \<lparr>thisStore = Num 1, loadedValuesString = Some ''[]'',
        currentLoadPromise = Some (Resolved (Num 1)), trace = [MappingLoad (Arr [])]\<rparr> =
     Some (JSON_stringify (snapshots counting_cell 1)) \<and>
   invoke (reload (asyncWritable JSON_stringify counting_cell))
       (\<lparr>thisStore = Num 1, loadedValuesString = Some ''[]'',
         currentLoadPromise = Some (Resolved (Num 1)), trace = [MappingLoad (Arr [])]\<rparr>, 1) =
     (Resolved (Num 2),
      \<lparr>thisStore = Num 2, loadedValuesString = Some ''[]'',
        currentLoadPromise = Some (Resolved (Num 2)),
        trace = [MappingLoad (Arr []), MappingLoad (Arr [])]\<rparr>, 2) \<and>
   reloadable successor_cell \<noteq> Some True \<and>
   reload (asyncWritable JSON_stringify successor_cell) \<noteq> None \<and>
   reloadAll (stores successor_cell)
       (\<lparr>thisStore = Num 1, loadedValuesString = Some ''[]'',
         currentLoadPromise = Some (Resolved (Num 1)), trace = [MappingLoad (Arr [])]\<rparr>, ()) =
     (Resolved (Arr [Num 1]),
      \<lparr>thisStore = Num 1, loadedValuesString = Some ''[]'',
        currentLoadPromise = Some (Resolved (Num 1)),
        trace = [MappingLoad (Arr []), MappingLoad (Arr [])]\<rparr>, ()) \<and>
   fst (snd (invoke (reload (asyncWritable JSON_stringify successor_cell))
       (\<lparr>thisStore = Num 2, loadedValuesString = Some ''[1]'',
         currentLoadPromise = Some (Resolved (Num 2)), trace = [MappingLoad (Num 1)]\<rparr>,
        \<lparr>thisStore = Num 1, loadedValuesString = Some ''[]'',
         currentLoadPromise = Some (Resolved (Num 1)), trace = [MappingLoad (Arr [])]\<rparr>, ()))) =
     \<lparr>thisStore = Num 2, loadedValuesString = Some ''[1]'',
       currentLoadPromise = Some (Resolved (Num 2)), trace = [MappingLoad (Num 1)]\<rparr>"
proof -
  let ?c = "\<lparr>thisStore = Num 1, loadedValuesString = Some ''[]'',
         currentLoadPromise = Some (Resolved (Num 1)), trace = [MappingLoad (Arr [])]\<rparr>"
  let ?d = "\<lparr>thisStore = Num 2, loadedValuesString = Some ''[1]'',
         currentLoadPromise = Some (Resolved (Num 2)), trace = [MappingLoad (Num 1)]\<rparr>"
  let ?c' = "\<lparr>thisStore = Num 1, loadedValuesString = Some ''[]'',
        currentLoadPromise = Some (Resolved (Num 1)),
        trace = [MappingLoad (Arr []), MappingLoad (Arr [])]\<rparr>"
  have p: "reloadAll (stores counting_cell) 1 = (Resolved (Arr []), 1)"
    by code_simp
  have run: "invoke (reload (asyncWritable JSON_stringify counting_cell)) (?c, 1) =
     (Resolved (Num 2),
      \<lparr>thisStore = Num 2, loadedValuesString = Some ''[]'',
        currentLoadPromise = Some (Resolved (Num 2)),
        trace = [MappingLoad (Arr []), MappingLoad (Arr [])]\<rparr>, 2)"
    by code_simp
  have k: "loadedValuesString ?c = Some (JSON_stringify (snapshots counting_cell 1))"
    by code_simp
  have f: "reloadable counting_cell = Some True"
    by (simp add: counting_cell_def)
  have g: "reloadable successor_cell \<noteq> Some True"
    by (simp add: successor_cell_def)
  have n: "reload (asyncWritable JSON_stringify successor_cell) \<noteq> None"
    by code_simp
  have q: "reloadAll (stores successor_cell) (?c, ()) = (Resolved (Arr [Num 1]), ?c', ())"
    by code_simp
  have k2: "loadedValuesString ?d = Some (JSON_stringify (snapshots successor_cell (?c', ())))"
    by code_simp
  obtain r2 d2 w2 where run2:
    "invoke (reload (asyncWritable JSON_stringify successor_cell)) (?d, ?c, ()) = (r2, d2, w2)"
    by (metis prod_cases3)
  show ?thesis
    using forced_reload_recomputes [where S = JSON_stringify and A = counting_cell, OF p run]
      forced_reload_recomputes [where S = JSON_stringify and A = successor_cell, OF q run2]
      p run k f g n q k2 run2
    by simp
qed

text \<open>
  The cell derived from the reloadable source has \<^verbatim>\<open>reload\<close>, its flag is not set.
  After a \<^verbatim>\<open>load()\<close>, its \<^verbatim>\<open>reload()\<close> reloads the source (whose mapping-load
  function runs a second time and gives 1 again) and then takes the memoization
  skip: the cell's own mapping-load function has still run once.
\<close>

theorem reload_without_flag_counterexample:
  "reloadable successor_cell = None \<and>
   reload (asyncWritable JSON_stringify successor_cell) \<noteq> None \<and>
   invoke (load (asyncWritable JSON_stringify successor_cell))
       (new_cell Undefined, new_cell Undefined, ()) =
     (Resolved (Num 2),
      \<lparr>thisStore = Num 2, loadedValuesString = Some ''[1]'',
        currentLoadPromise = Some (Resolved (Num 2)), trace = [MappingLoad (Num 1)]\<rparr>,
      \<lparr>thisStore = Num 1, loadedValuesString = Some ''[]'',
        currentLoadPromise = Some (Resolved (Num 1)), trace = [MappingLoad (Arr [])]\<rparr>, ()) \<and>
   invoke (reload (asyncWritable JSON_stringify successor_cell))
       (\<lparr>thisStore = Num 2, loadedValuesString = Some ''[1]'',
         currentLoadPromise = Some (Resolved (Num 2)), trace = [MappingLoad (Num 1)]\<rparr>,
        \<lparr>thisStore = Num 1, loadedValuesString = Some ''[]'',
         currentLoadPromise = Some (Resolved (Num 1)), trace = [MappingLoad (Arr [])]\<rparr>, ()) =
     (Resolved (Num 2),
      \<lparr>thisStore = Num 2, loadedValuesString = Some ''[1]'',
        currentLoadPromise = Some (Resolved (Num 2)), trace = [MappingLoad (Num 1)]\<rparr>,
      \<lparr>thisStore = Num 1, loadedValuesString = Some ''[]'',
        currentLoadPromise = Some (Resolved (Num 1)),
        trace = [MappingLoad (Arr []), MappingLoad (Arr [])]\<rparr>, ())"
  by code_simp

section \<open>reloadAll\<close>








section \<open>Writing\<close>

lemma pass_resolved_promise:
  assumes "loadDependenciesThenSet S A resolve fr (c, w) = (Resolved x, c1, w1)"
    and "currentLoadPromise c1 = Some p"
  shows "p = Resolved x"
proof (cases "resolve (stores A) w")
  case (Pair pr wa)
  show ?thesis
  proof (cases pr)
    case (Rejected e)
    with Pair assms show ?thesis
      by (simp add: pass_parents_rejected)
  next
    case (Resolved y)
    show ?thesis
    proof (cases "fr = Some True \<or> loadedValuesString c \<noteq> Some (S (snapshots A wa))")
      case True
      from pass_computes [where pl = resolve and A = A and S = S and fr = fr and c = c
          and w = w and x = y and ?w1.0 = wa] Pair Resolved True assms
      show ?thesis
        by (auto simp add: Let_def split: prod.splits returned.splits outcome.splits)
    next
      case False
      with pass_memo_hit [where pl = resolve and A = A and S = S and fr = fr and c = c
          and w = w and x = y and ?w1.0 = wa] Pair Resolved assms
      show ?thesis
        by (auto simp add: await_def)
    qed
  qed
qed

lemma forced_pass_resolved:
  assumes "loadDependenciesThenSet S A resolve (Some True) (c, w) = (Resolved x, c', w')"
  shows "\<exists>y wr. resolve (stores A) w = (Resolved y, wr) \<and>
           mappingLoadFunction A (mappingArgument A wr) wr = (Returns (Resolved x), w') \<and>
           trace c' = trace c @ [MappingLoad (mappingArgument A wr)] \<and>
           thisStore c' = x \<and> currentLoadPromise c' = Some (Resolved x)"
proof (cases "resolve (stores A) w")
  case (Pair pr wr)
  show ?thesis
  proof (cases pr)
    case (Rejected e)
    with Pair assms show ?thesis
      by (simp add: pass_parents_rejected)
  next
    case (Resolved y)
    from pass_computes [where pl = resolve and A = A and S = S and fr = "Some True" and c = c
        and w = w and x = y and ?w1.0 = wr] Pair Resolved assms
    show ?thesis
      by (auto simp add: Let_def split: prod.splits returned.splits outcome.splits)
  qed
qed

text \<open>
  Claim C5, as the code has it. On a cell with a mapping-write function, a
  \<^verbatim>\<open>set(value)\<close> that is awaited and succeeds has called the mapping-write function
  with the value and with the array that \<^verbatim>\<open>loadAll\<close> resolved to. Without a truthy
  \<^verbatim>\<open>reloadable\<close> flag: when the function resolved to a defined result, the value of
  the cell afterwards is that result and not the value that was set first, and the
  current load promise resolves to it; for
  \<^verbatim>\<open>asyncWritable([], async () => 0, async (v) => v * 2)\<close> and \<^verbatim>\<open>set(3)\<close> the value
  afterwards is 6. With a truthy flag \<^verbatim>\<open>set(value)\<close> ends with a forced reload after
  the write: the parents are reloaded, the mapping-load function is called, and the
  value of the cell afterwards is what that call resolved to, as is the current load
  promise.
\<close>

theorem write_response_is_authoritative:
  assumes "mappingWriteFunction A = Some write"
    and "set_fn (asyncWritable S A) v (c, w) = (Resolved u, c', w')"
    and "loadDependenciesThenSet S A loadAll None (c, w) = (r0, c1, w1)"
    and "loadAll (stores A) w1 = (p, w2)"
  shows "\<exists>parentValues writeResponse w3.
           p = Resolved parentValues \<and>
           write v parentValues w2 = (Resolved writeResponse, w3) \<and>
           (reloadable A \<noteq> Some True \<longrightarrow>
              w' = w3 \<and> trace c' = trace c1 @ [MappingWrite v parentValues] \<and>
              thisStore c' = (if writeResponse \<noteq> Undefined then writeResponse else v) \<and>
              (writeResponse \<noteq> Undefined \<longrightarrow>
                 currentLoadPromise c' = Some (Resolved writeResponse))) \<and>
           (reloadable A = Some True \<longrightarrow>
              (\<exists>y wr x.
                 reloadAll (stores A) w3 = (Resolved y, wr) \<and>
                 mappingLoadFunction A (mappingArgument A wr) wr = (Returns (Resolved x), w') \<and>
                 trace c' =
                   trace c1 @ [MappingWrite v parentValues, MappingLoad (mappingArgument A wr)] \<and>
                 thisStore c' = x \<and> currentLoadPromise c' = Some (Resolved x)))"
proof -
  from assms(2) have run: "setStoreValueThenWrite S A v (c, w) = (Resolved u, c', w')"
    by (simp add: set_fn_asyncWritable)
  from run assms(3) obtain q where q: "currentLoadPromise c1 = Some q"
    by (cases "currentLoadPromise c1") (auto simp add: setStoreValueThenWrite_def)
  define chained where
    "chained = (case r0 of Resolved x \<Rightarrow> promise_then q v | Rejected e \<Rightarrow> promise_catch q v)"
  have ch: "\<exists>y. chained = Resolved y"
  proof (cases r0)
    case (Resolved x)
    with assms(3) have "loadDependenciesThenSet S A loadAll None (c, w) = (Resolved x, c1, w1)"
      by simp
    from pass_resolved_promise [OF this q] have "q = Resolved x" .
    with Resolved show ?thesis
      by (simp add: chained_def promise_then_def)
  next
    case (Rejected e)
    then show ?thesis
      by (cases q) (simp_all add: chained_def promise_catch_def)
  qed
  then obtain y0 where y0: "chained = Resolved y0"
    by auto
  define c2 where "c2 = c1\<lparr>currentLoadPromise := Some chained, thisStore := v\<rparr>"
  from run assms(3) q
  have wt: "writeThrough S A v (c2, w1) = (Resolved u, c', w')"
    by (simp add: setStoreValueThenWrite_def chained_def c2_def)
  show ?thesis
  proof (cases p)
    case (Rejected e)
    with wt assms(1,4) show ?thesis
      by (simp add: writeThrough_def)
  next
    case (Resolved parentValues)
    obtain wr w3 where w: "write v parentValues w2 = (wr, w3)"
      by (cases "write v parentValues w2")
    show ?thesis
    proof (cases wr)
      case (Rejected e)
      with wt assms(1,4) Resolved w show ?thesis
        by (simp add: writeThrough_def)
    next
      case r: (Resolved writeResponse)
      define c3 where "c3 =
        (if writeResponse \<noteq> Undefined
         then c2\<lparr>trace := trace c2 @ [MappingWrite v parentValues], thisStore := writeResponse,
                 currentLoadPromise := Some (Resolved writeResponse)\<rparr>
         else c2\<lparr>trace := trace c2 @ [MappingWrite v parentValues]\<rparr>)"
      from wt assms(1,4) Resolved w r y0
      have rl: "reloadAfterWrite S A (c3, w3) = (Resolved u, c', w')"
        by (auto simp add: writeThrough_def c3_def c2_def promise_then_def Let_def
            split: if_splits)
      have t3: "trace c3 = trace c1 @ [MappingWrite v parentValues]"
        and v3: "thisStore c3 = (if writeResponse \<noteq> Undefined then writeResponse else v)"
        and p3: "writeResponse \<noteq> Undefined \<longrightarrow>
                   currentLoadPromise c3 = Some (Resolved writeResponse)"
        by (simp_all add: c3_def c2_def)
      have plain: "reloadable A \<noteq> Some True \<longrightarrow>
              w' = w3 \<and> trace c' = trace c1 @ [MappingWrite v parentValues] \<and>
              thisStore c' = (if writeResponse \<noteq> Undefined then writeResponse else v) \<and>
              (writeResponse \<noteq> Undefined \<longrightarrow>
                 currentLoadPromise c' = Some (Resolved writeResponse))"
        using rl t3 v3 p3 by (auto simp add: reloadAfterWrite_def)
      have forced: "reloadable A = Some True \<longrightarrow>
              (\<exists>y wr x.
                 reloadAll (stores A) w3 = (Resolved y, wr) \<and>
                 mappingLoadFunction A (mappingArgument A wr) wr = (Returns (Resolved x), w') \<and>
                 trace c' =
                   trace c1 @ [MappingWrite v parentValues, MappingLoad (mappingArgument A wr)] \<and>
                 thisStore c' = x \<and> currentLoadPromise c' = Some (Resolved x))"
      proof
        assume f: "reloadable A = Some True"
        with rl obtain x where
          "loadDependenciesThenSet S A reloadAll (Some True) (c3, w3) = (Resolved x, c', w')"
          by (auto simp add: reloadAfterWrite_def split: prod.splits outcome.splits)
        from forced_pass_resolved [OF this] t3
        show "\<exists>y wr x.
                 reloadAll (stores A) w3 = (Resolved y, wr) \<and>
                 mappingLoadFunction A (mappingArgument A wr) wr = (Returns (Resolved x), w') \<and>
                 trace c' =
                   trace c1 @ [MappingWrite v parentValues, MappingLoad (mappingArgument A wr)] \<and>
                 thisStore c' = x \<and> currentLoadPromise c' = Some (Resolved x)"
          by auto
      qed
      from Resolved w r plain forced show ?thesis
        by blast
    qed
  qed
qed

theorem write_response_is_authoritative_witness:
  "mappingWriteFunction doubling_cell \<noteq> None \<and>
   reloadable doubling_cell \<noteq> Some True \<and>
   set_fn (asyncWritable JSON_stringify doubling_cell) (Num 3) (new_cell Undefined, ()) =
     (Resolved Undefined,
      \<lparr>thisStore = Num 6, loadedValuesString = Some ''[]'',
        currentLoadPromise = Some (Resolved (Num 6)),
        trace = [MappingLoad (Arr []), MappingWrite (Num 3) (Arr [])]\<rparr>, ()) \<and>
   get (Loadable.truncate (asyncWritable JSON_stringify doubling_cell))
     (\<lparr>thisStore = Num 6, loadedValuesString = Some ''[]'',
        currentLoadPromise = Some (Resolved (Num 6)),
        trace = [MappingLoad (Arr []), MappingWrite (Num 3) (Arr [])]\<rparr>, ()) = Num 6 \<and>
   reloadable (doubling_cell\<lparr>reloadable := Some True\<rparr>) = Some True \<and>
   mappingLoadFunction (doubling_cell\<lparr>reloadable := Some True\<rparr>)
       (mappingArgument (doubling_cell\<lparr>reloadable := Some True\<rparr>) ()) () =
     (Returns (Resolved (Num 0)), ()) \<and>
   thisStore (fst (snd (set_fn (asyncWritable JSON_stringify (doubling_cell\<lparr>reloadable := Some True\<rparr>))
       (Num 3) (new_cell Undefined, ())))) = Num 0"
proof -
  let ?mw = "\<lambda>v parentValues w.
                (Resolved (case v of Num n \<Rightarrow> Num (n * 2) | _ \<Rightarrow> Undefined), w :: unit)"
  let ?R = "doubling_cell\<lparr>reloadable := Some True\<rparr>"
  let ?c1 = "\<lparr>thisStore = Num 0, loadedValuesString = Some ''[]'',
        currentLoadPromise = Some (Resolved (Num 0)), trace = [MappingLoad (Arr [])]\<rparr>"
  let ?c' = "\<lparr>thisStore = Num 6, loadedValuesString = Some ''[]'',
        currentLoadPromise = Some (Resolved (Num 6)),
        trace = [MappingLoad (Arr []), MappingWrite (Num 3) (Arr [])]\<rparr>"
  let ?d' = "\<lparr>thisStore = Num 0, loadedValuesString = Some ''[]'',
        currentLoadPromise = Some (Resolved (Num 0)),
        trace = [MappingLoad (Arr []), MappingWrite (Num 3) (Arr []), MappingLoad (Arr [])]\<rparr>"
  have m: "mappingWriteFunction doubling_cell = Some ?mw"
    by (simp add: doubling_cell_def)
  have m': "mappingWriteFunction ?R = Some ?mw"
    by (simp add: doubling_cell_def)
  have f: "reloadable doubling_cell \<noteq> Some True"
    by (simp add: doubling_cell_def)
  have f': "reloadable ?R = Some True"
    by simp
  have run: "set_fn (asyncWritable JSON_stringify doubling_cell) (Num 3) (new_cell Undefined, ()) =
     (Resolved Undefined, ?c', ())"
    by code_simp
  have run': "set_fn (asyncWritable JSON_stringify ?R) (Num 3) (new_cell Undefined, ()) =
     (Resolved Undefined, ?d', ())"
    by code_simp
  have pass: "loadDependenciesThenSet JSON_stringify doubling_cell loadAll None
      (new_cell Undefined, ()) = (Resolved (Num 0), ?c1, ())"
    by code_simp
  have pass': "loadDependenciesThenSet JSON_stringify ?R loadAll None
      (new_cell Undefined, ()) = (Resolved (Num 0), ?c1, ())"
    by code_simp
  have pl: "loadAll (stores doubling_cell) () = (Resolved (Arr []), ())"
    by code_simp
  have pl': "loadAll (stores ?R) () = (Resolved (Arr []), ())"
    by code_simp
  have g: "get (Loadable.truncate (asyncWritable JSON_stringify doubling_cell)) (?c', ()) = Num 6"
    by code_simp
  have ml: "mappingLoadFunction ?R (mappingArgument ?R ()) () = (Returns (Resolved (Num 0)), ())"
    by code_simp
  show ?thesis
    using write_response_is_authoritative [OF m run pass pl]
      write_response_is_authoritative [OF m' run' pass' pl']
      m f f' run run' g ml
    by simp
qed

text \<open>
  The same cell with \<^verbatim>\<open>reloadable\<close> passed as \<^verbatim>\<open>true\<close>: the mapping-write function
  resolves to 6, \<^verbatim>\<open>set(3)\<close> ends with its forced reload, and the value afterwards is
  the 0 that the mapping-load function derives.
\<close>

theorem reload_after_write_counterexample:
  "mappingWriteFunction (doubling_cell\<lparr>reloadable := Some True\<rparr>) \<noteq> None \<and>
   fst (the (mappingWriteFunction (doubling_cell\<lparr>reloadable := Some True\<rparr>)) (Num 3) (Arr []) ()) =
     Resolved (Num 6) \<and>
   set_fn (asyncWritable JSON_stringify (doubling_cell\<lparr>reloadable := Some True\<rparr>)) (Num 3)
       (new_cell Undefined, ()) =
     (Resolved Undefined,
      \<lparr>thisStore = Num 0, loadedValuesString = Some ''[]'',
        currentLoadPromise = Some (Resolved (Num 0)),
        trace = [MappingLoad (Arr []), MappingWrite (Num 3) (Arr []), MappingLoad (Arr [])]\<rparr>,
      ())"
  by code_simp

section \<open>Failures and the explicit calls\<close>







section \<open>Loading after a write\<close>

lemma pass_returns_current_promise:
  assumes "resolve (stores A) w = (Resolved x, wa)"
    and "fr = Some True \<or> loadedValuesString c \<noteq> Some (S (snapshots A wa)) \<longrightarrow>
         (\<forall>e. fst (mappingLoadFunction A (mappingArgument A wa) wa) \<noteq> Throws e)"
    and "loadDependenciesThenSet S A resolve fr (c, w) = (r0, c', w')"
  shows "r0 = await (currentLoadPromise c')"
proof (cases "fr = Some True \<or> loadedValuesString c \<noteq> Some (S (snapshots A wa))")
  case True
  from pass_computes [where pl = resolve and A = A and S = S and fr = fr and c = c,
      OF assms(1) True] assms(2,3) True
  show ?thesis
    by (auto simp add: Let_def await_def split: prod.splits returned.splits outcome.splits)
next
  case False
  with pass_memo_hit [where pl = resolve and A = A and S = S and fr = fr and c = c,
      OF assms(1)] assms(3)
  show ?thesis
    by auto
qed

text \<open>
  What \<^verbatim>\<open>set\<close> is written to do, and does on every path but one. A cell without a
  mapping-write function and without a truthy \<^verbatim>\<open>reloadable\<close> flag; \<^verbatim>\<open>set(v)\<close> is
  awaited and succeeds, and its derivation pass has resolved the parents. If the pass
  did not call the mapping-load function, or the function did not throw
  synchronously, then a \<^verbatim>\<open>load()\<close> for which the parents resolve to the same values
  resolves to \<open>v\<close> and leaves the cell as it is.
\<close>

lemma load_after_set_unless_thrown:
  assumes "mappingWriteFunction A = None" and "reloadable A \<noteq> Some True"
    and "set_fn (asyncWritable S A) v (c, w) = (Resolved u, c1, w1)"
    and "loadAll (stores A) w = (Resolved x, wa)"
    and "loadedValuesString c \<noteq> Some (S (snapshots A wa)) \<longrightarrow>
         (\<forall>e. fst (mappingLoadFunction A (mappingArgument A wa) wa) \<noteq> Throws e)"
    and "loadAll (stores A) w1 = (Resolved y, wb)"
    and "snapshots A wb = snapshots A wa"
  shows "invoke (load (asyncWritable S A)) (c1, w1) = (Resolved v, c1, wb) \<and>
         thisStore c1 = v \<and> currentLoadPromise c1 = Some (Resolved v) \<and>
         loadedValuesString c1 = Some (S (snapshots A wa))"
proof -
  obtain r0 c' w' where pass: "loadDependenciesThenSet S A loadAll None (c, w) = (r0, c', w')"
    by (metis prod_cases3)
  from assms(3) have run: "setStoreValueThenWrite S A v (c, w) = (Resolved u, c1, w1)"
    by (simp add: set_fn_asyncWritable)
  from run pass obtain q where q: "currentLoadPromise c' = Some q"
    by (cases "currentLoadPromise c'") (auto simp add: setStoreValueThenWrite_def)
  from assms(5) have "None = Some True \<or> loadedValuesString c \<noteq> Some (S (snapshots A wa)) \<longrightarrow>
         (\<forall>e. fst (mappingLoadFunction A (mappingArgument A wa) wa) \<noteq> Throws e)"
    by simp
  from pass_returns_current_promise [where resolve = loadAll and A = A and S = S,
      OF assms(4) this pass] q
  have r0: "r0 = q"
    by (simp add: await_def)
  have chained: "(case r0 of Resolved x \<Rightarrow> promise_then q v | Rejected e \<Rightarrow> promise_catch q v) =
      Resolved v"
    unfolding r0 by (cases q) (simp_all add: promise_then_def promise_catch_def)
  from run pass q chained assms(1,2)
  have c1: "c1 = c'\<lparr>currentLoadPromise := Some (Resolved v), thisStore := v\<rparr>" and w1: "w1 = w'"
    by (simp_all add: setStoreValueThenWrite_def writeThrough_def reloadAfterWrite_def)
  from pass_unforced_sets_key [where resolve = loadAll and A = A and S = S,
      OF assms(4) _ pass]
  have key: "loadedValuesString c' = Some (S (snapshots A wa))"
    by simp
  then have "loadedValuesString c1 = Some (S (snapshots A wb))"
    unfolding c1 by (simp only: assms(7)) simp
  from pass_memo_hit [where pl = loadAll and A = A and S = S and fr = None,
      OF assms(6) _ this]
  have "loadDependenciesThenSet S A loadAll None (c1, w1) = (await (currentLoadPromise c1), c1, wb)"
    by simp
  with c1 key show ?thesis
    by (simp add: invoke_load await_def)
qed

text \<open>
  Claim C9. On a cell without a mapping-write function and without the
  \<^verbatim>\<open>reloadable\<close> flag, after \<^verbatim>\<open>await c.set(v)\<close> has succeeded, a \<^verbatim>\<open>c.load()\<close> with the
  parents unchanged resolves to \<open>v\<close> and does not call the mapping-load function.
  The code breaks this after a synchronous throw of the mapping-load function. The
  run: the parent holds 1 and \<^verbatim>\<open>load()\<close> resolves to 1; the parent is set to 2;
  inside \<^verbatim>\<open>set(7)\<close> the pass writes the key of 2, the function throws before
  \<^verbatim>\<open>currentLoadPromise\<close> is assigned, and \<^verbatim>\<open>.catch(() => value)\<close> on the old fulfilled
  promise keeps its 1; \<^verbatim>\<open>set(7)\<close> succeeds and the cell holds 7; the \<^verbatim>\<open>load()\<close>
  after it, the parent still 2, hits the key and resolves to 1. On the cell whose
  function returns a rejected promise instead (the second half), the same calls end
  with \<^verbatim>\<open>load()\<close> resolving to 7.
\<close>

theorem set_then_load_after_synchronous_throw:
  "mappingWriteFunction picky_cell = None \<and> reloadable picky_cell = None \<and>
   invoke (load (asyncWritable JSON_stringify picky_cell)) (new_cell Undefined, Num 1) =
     (Resolved (Num 1),
      \<lparr>thisStore = Num 1, loadedValuesString = Some ''[1]'',
        currentLoadPromise = Some (Resolved (Num 1)), trace = [MappingLoad (Num 1)]\<rparr>, Num 1) \<and>
   set_fn (asyncWritable JSON_stringify picky_cell) (Num 7)
       (\<lparr>thisStore = Num 1, loadedValuesString = Some ''[1]'',
         currentLoadPromise = Some (Resolved (Num 1)), trace = [MappingLoad (Num 1)]\<rparr>, Num 2) =
     (Resolved Undefined,
      \<lparr>thisStore = Num 7, loadedValuesString = Some ''[2]'',
        currentLoadPromise = Some (Resolved (Num 1)),
        trace = [MappingLoad (Num 1), MappingLoad (Num 2)]\<rparr>, Num 2) \<and>
   loadAll (stores picky_cell) (Num 2) = (Resolved (Arr [Num 2]), Num 2) \<and>
   invoke (load (asyncWritable JSON_stringify picky_cell))
       (\<lparr>thisStore = Num 7, loadedValuesString = Some ''[2]'',
         currentLoadPromise = Some (Resolved (Num 1)),
         trace = [MappingLoad (Num 1), MappingLoad (Num 2)]\<rparr>, Num 2) =
     (Resolved (Num 1),
      \<lparr>thisStore = Num 7, loadedValuesString = Some ''[2]'',
        currentLoadPromise = Some (Resolved (Num 1)),
        trace = [MappingLoad (Num 1), MappingLoad (Num 2)]\<rparr>, Num 2) \<and>
   invoke (load (asyncWritable JSON_stringify picky_async_cell)) (new_cell Undefined, Num 1) =
     (Resolved (Num 1),
      \<lparr>thisStore = Num 1, loadedValuesString = Some ''[1]'',
        currentLoadPromise = Some (Resolved (Num 1)), trace = [MappingLoad (Num 1)]\<rparr>, Num 1) \<and>
   set_fn (asyncWritable JSON_stringify picky_async_cell) (Num 7)
       (\<lparr>thisStore = Num 1, loadedValuesString = Some ''[1]'',
         currentLoadPromise = Some (Resolved (Num 1)), trace = [MappingLoad (Num 1)]\<rparr>, Num 2) =
     (Resolved Undefined,
      \<lparr>thisStore = Num 7, loadedValuesString = Some ''[2]'',
        currentLoadPromise = Some (Resolved (Num 7)),
        trace = [MappingLoad (Num 1), MappingLoad (Num 2)]\<rparr>, Num 2) \<and>
   invoke (load (asyncWritable JSON_stringify picky_async_cell))
       (\<lparr>thisStore = Num 7, loadedValuesString = Some ''[2]'',
         currentLoadPromise = Some (Resolved (Num 7)),
         trace = [MappingLoad (Num 1), MappingLoad (Num 2)]\<rparr>, Num 2) =
     (Resolved (Num 7),
      \<lparr>thisStore = Num 7, loadedValuesString = Some ''[2]'',
        currentLoadPromise = Some (Resolved (Num 7)),
        trace = [MappingLoad (Num 1), MappingLoad (Num 2)]\<rparr>, Num 2)"
  by code_simp

end
